theory Spec2Isabelle
  imports Complex_Main "HOL-Library.Sublist"
begin

section \<open>Python values and exceptions used by sgpt.py\<close>

text \<open>
  A Python \<open>str\<close> is a sequence of code points. The model takes the code points
  0..255, one \<^typ>\<open>char\<close> each; code points beyond 255 are outside the model.
\<close>

datatype error =
    FileNotFoundError
  | PermissionError
  | JSONDecodeError
  | TypeError
  | KeyError
  | IndexError
  | AttributeError
  | ValueError
  | UsageError
  | MissingParameter
  | RequestError

text \<open>
  What \<open>json.load\<close> yields and \<open>json.dumps\<close> accepts (floats left out: sgpt.py
  never stores one). A dict is the list of its items in insertion order.
\<close>

datatype json =
    JNull
  | JBool bool
  | JNum int
  | JStr string
  | JArr "json list"
  | JObj "(string \<times> json) list"

abbreviation LF :: char where
  "LF \<equiv> CHR 0x0A"

abbreviation CR :: char where
  "CR \<equiv> CHR 0x0D"

subsection \<open>str.isdigit, int, str, len, indexing\<close>

definition isdecimal_char :: "char \<Rightarrow> bool" where
  \<comment> \<open>the characters \<open>int\<close> reads as decimal digits: 0..9\<close>
  "isdecimal_char c = (48 \<le> (of_char c :: nat) \<and> (of_char c :: nat) \<le> 57)"

definition isdigit_char :: "char \<Rightarrow> bool" where
  \<comment> \<open>\<open>str.isdigit\<close> on one character: the decimal digits, and the superscript digits
      U+00B2, U+00B3, U+00B9 (Numeric_Type=Digit)\<close>
  "isdigit_char c =
     (isdecimal_char c \<or> (of_char c :: nat) = 178 \<or> (of_char c :: nat) = 179
      \<or> (of_char c :: nat) = 185)"

definition isdigit :: "string \<Rightarrow> bool" where
  \<comment> \<open>\<open>s.isdigit()\<close>: at least one character, all of them digits\<close>
  "isdigit s = (s \<noteq> [] \<and> list_all isdigit_char s)"

definition digit_val :: "char \<Rightarrow> int" where
  "digit_val c = int (of_char c) - 48"

definition py_int :: "nat \<Rightarrow> string \<Rightarrow> error + int" where
  \<comment> \<open>\<open>int(s)\<close> for an \<open>s\<close> that passed \<open>s.isdigit()\<close>, the only strings main gives it:
      no sign, blank or underscore can occur, and a digit that is not decimal is refused.
      \<open>max_str_digits\<close> is \<open>sys.get_int_max_str_digits()\<close>: when it is not 0, a string of
      more digits (leading zeros count) is refused with ValueError\<close>
  "py_int max_str_digits s =
     (if s \<noteq> [] \<and> list_all isdecimal_char s
      then (if 0 < max_str_digits \<and> max_str_digits < length s then Inl ValueError
            else Inr (foldl (\<lambda>acc c. 10 * acc + digit_val c) 0 s))
      else Inl ValueError)"

fun digits10 :: "nat \<Rightarrow> string" where
  "digits10 n =
     (if n < 10 then [char_of (48 + n)]
      else digits10 (n div 10) @ [char_of (48 + n mod 10)])"

declare digits10.simps [simp del]

definition py_str :: "int \<Rightarrow> string" where
  \<comment> \<open>\<open>str(i)\<close>, as an f-string renders an int\<close>
  "py_str i = (if i < 0 then CHR ''-'' # digits10 (nat (- i)) else digits10 (nat i))"

fun py_len :: "json \<Rightarrow> error + int" where
  "py_len (JArr xs) = Inr (int (length xs))"
| "py_len (JObj kvs) = Inr (int (length kvs))"
| "py_len (JStr s) = Inr (int (length s))"
| "py_len _ = Inl TypeError"

fun getitem_int :: "json \<Rightarrow> int \<Rightarrow> error + json" where
  \<comment> \<open>\<open>data[k]\<close> for an int \<open>k\<close>: a negative index counts from the end; a dict loaded
      from JSON has only string keys\<close>
  "getitem_int (JArr xs) k =
     (let n = int (length xs); j = (if k < 0 then n + k else k)
      in if 0 \<le> j \<and> j < n then Inr (xs ! nat j) else Inl IndexError)"
| "getitem_int (JStr s) k =
     (let n = int (length s); j = (if k < 0 then n + k else k)
      in if 0 \<le> j \<and> j < n then Inr (JStr [s ! nat j]) else Inl IndexError)"
| "getitem_int (JObj kvs) k = Inl KeyError"
| "getitem_int _ k = Inl TypeError"

fun getitem_str :: "json \<Rightarrow> string \<Rightarrow> error + json" where
  \<comment> \<open>\<open>rec[key]\<close> for a string key\<close>
  "getitem_str (JObj kvs) key =
     (case map_of kvs key of None \<Rightarrow> Inl KeyError | Some v \<Rightarrow> Inr v)"
| "getitem_str _ key = Inl TypeError"

subsection \<open>str.strip, str.replace, universal newlines\<close>

definition isspace_char :: "char \<Rightarrow> bool" where
  "isspace_char c =
     ((of_char c :: nat) \<in> {9, 10, 11, 12, 13, 28, 29, 30, 31, 32, 133, 160})"

definition strip :: "string \<Rightarrow> string" where
  "strip s = rev (dropWhile isspace_char (rev (dropWhile isspace_char s)))"

fun replace :: "string \<Rightarrow> string \<Rightarrow> string \<Rightarrow> string" where
  \<comment> \<open>\<open>s.replace(old, new)\<close> for a non-empty \<open>old\<close>\<close>
  "replace old new [] = []"
| "replace old new (c # cs) =
     (if old \<noteq> [] \<and> take (length old) (c # cs) = old
      then new @ replace old new (drop (length old - 1) cs)
      else c # replace old new cs)"

fun universal_newlines :: "string \<Rightarrow> string" where
  \<comment> \<open>reading in text mode (newline=None): CR LF and a lone CR arrive as LF\<close>
  "universal_newlines [] = []"
| "universal_newlines [c] = (if c = CR then [LF] else [c])"
| "universal_newlines (c # d # cs) =
     (if c = CR then
        (if d = LF then LF # universal_newlines cs else LF # universal_newlines (d # cs))
      else c # universal_newlines (d # cs))"

fun split_lines :: "string \<Rightarrow> string list" where
  \<comment> \<open>the lines of a text, without their terminating LF\<close>
  "split_lines [] = []"
| "split_lines (c # cs) =
     (if c = LF then [] # split_lines cs
      else (case split_lines cs of
              [] \<Rightarrow> [[c]]
            | l # ls \<Rightarrow> (c # l) # ls))"

subsection \<open>time.strftime("%H:%M:%S %d/%m/%Y", t)\<close>

record struct_time =
  tm_year :: nat
  tm_mon :: nat
  tm_mday :: nat
  tm_hour :: nat
  tm_min :: nat
  tm_sec :: nat

definition pad2 :: "nat \<Rightarrow> string" where
  \<comment> \<open>a field printed with at least two digits, zero padded\<close>
  "pad2 n = (if n < 10 then CHR ''0'' # digits10 n else digits10 n)"

definition strftime :: "struct_time \<Rightarrow> string" where
  "strftime t =
     pad2 (tm_hour t) @ '':'' @ pad2 (tm_min t) @ '':'' @ pad2 (tm_sec t) @ '' '' @
     pad2 (tm_mday t) @ ''/'' @ pad2 (tm_mon t) @ ''/'' @ digits10 (tm_year t)"

definition valid_time :: "struct_time \<Rightarrow> bool" where
  \<comment> \<open>the field ranges of a \<open>struct_time\<close> whose year has four digits\<close>
  "valid_time t =
     (tm_hour t < 24 \<and> tm_min t < 60 \<and> tm_sec t < 62 \<and>
      1 \<le> tm_mday t \<and> tm_mday t \<le> 31 \<and> 1 \<le> tm_mon t \<and> tm_mon t \<le> 12 \<and>
      1000 \<le> tm_year t \<and> tm_year t \<le> 9999)"

fun matches_shape :: "string \<Rightarrow> string \<Rightarrow> bool" where
  \<comment> \<open>in the shape, \<open>d\<close> stands for one decimal digit, any other character for itself\<close>
  "matches_shape [] [] = True"
| "matches_shape (p # ps) (c # cs) =
     ((if p = CHR ''d'' then isdecimal_char c else c = p) \<and> matches_shape ps cs)"
| "matches_shape _ _ = False"

definition timestamp_pattern :: "string \<Rightarrow> bool" where
  \<comment> \<open>HH:MM:SS DD/MM/YYYY\<close>
  "timestamp_pattern s = matches_shape ''dd:dd:dd dd/dd/dddd'' s"

section \<open>The files and the collaborators\<close>

text \<open>
  A file of the local file system: absent, present but refused by its permissions, or
  present with its content (creating a directory or a file in the user's own
  configuration directory is taken to succeed). The content of \<open>.inst_memory.json\<close> is either a JSON
  document or text \<open>json.load\<close> refuses; \<open>json.dumps\<close> followed by
  \<open>json.load\<close> gives the value back, so the document is kept as the value.
\<close>

datatype 'a disk_file = Absent | Denied | Holds 'a

datatype inst_content = Malformed | Document json

datatype Model = davinci | curie | codex

text \<open>
  What one run does, in order: its output, its calls of the terminal and of the shell,
  and the start of each store operation (the three store functions, the read of the
  fact file and the load of the interaction file in main).
\<close>

datatype event =
    Secho string string
  | Print string
  | Typer_writer json bool bool bool
  | Input string
  | Confirm string
  | Os_system string
  | Write_temp_py string
  | Update_config string json
  | Call_clear_fact_memory
  | Call_save_fact string
  | Call_write_to_memory json json json json
  | Read_fact_memory
  | Load_inst_memory

record state =
  shellgpt_dir :: bool
  fact_memory_file :: "string disk_file"
  inst_memory :: "inst_content disk_file"
  trace :: "event list"

text \<open>
  The collaborators of one run, as the values they hand back: the configuration file
  (\<open>get_config\<close>, \<open>update_config\<close>: getpass and YAML), the clock, the prompt
  templates beside the script, the completion request, the embedding service behind
  \<open>filter_facts\<close>, the terminal and the editor. \<open>get_config\<close> runs before every
  \<open>update_config\<close> of the same run, so one run sees one configuration.
  \<open>localtime\<close> is not called by sgpt.py; it is the clock the specification names.
  \<open>int_max_str_digits\<close> is the interpreter's limit on the digits \<open>int\<close> converts
  (\<open>sys.get_int_max_str_digits()\<close>): 4300 unless configured, 0 for no limit, which is also
  how an interpreter older than the limit behaves.
\<close>

record env =
  get_config :: "string \<Rightarrow> error + string"
  update_config :: "string \<Rightarrow> json \<Rightarrow> error option"
  gmtime :: struct_time
  localtime :: struct_time
  script_path :: string
  read_prompt_file :: "string \<Rightarrow> error + string"
  openai_request :: "string option \<Rightarrow> Model \<Rightarrow> int \<Rightarrow> string \<Rightarrow> rat \<Rightarrow> rat \<Rightarrow> error + string"
  embedding_rank :: "string \<Rightarrow> string \<Rightarrow> string \<Rightarrow> string option"
  input_reply :: string
  confirm_reply :: bool
  get_edited_prompt :: string
  int_max_str_digits :: nat

definition emit :: "event \<Rightarrow> state \<Rightarrow> state" where
  "emit e s = s\<lparr>trace := trace s @ [e]\<rparr>"

definition file_exists :: "'a disk_file \<Rightarrow> bool" where
  "file_exists f = (f \<noteq> Absent)"

section \<open>The Fact Store\<close>

definition save_fact :: "string \<Rightarrow> state \<Rightarrow> (error + unit) \<times> state" where
  \<comment> \<open>sgpt.py 86-91: mkdir of the parent when the file is absent, then open(.., "a")\<close>
  "save_fact fact_text s =
     (let s0 = emit (Call_save_fact fact_text) s;
          s1 = (if \<not> file_exists (fact_memory_file s0) then s0\<lparr>shellgpt_dir := True\<rparr> else s0)
      in case fact_memory_file s1 of
           Denied \<Rightarrow> (Inl PermissionError, s1)
         | Absent \<Rightarrow> (Inr (), s1\<lparr>fact_memory_file := Holds (fact_text @ [LF])\<rparr>)
         | Holds old \<Rightarrow> (Inr (), s1\<lparr>fact_memory_file := Holds (old @ fact_text @ [LF])\<rparr>))"

definition clear_fact_memory :: "state \<Rightarrow> (error + unit) \<times> state" where
  \<comment> \<open>sgpt.py 93-95\<close>
  "clear_fact_memory s =
     (let s0 = emit Call_clear_fact_memory s
      in if file_exists (fact_memory_file s0)
         then (Inr (), s0\<lparr>fact_memory_file := Absent\<rparr>)
         else (Inr (), s0))"

definition read_text :: "state \<Rightarrow> (error + string) \<times> state" where
  \<comment> \<open>FACT_MEMORY_FILE.read_text()\<close>
  "read_text s =
     (let s0 = emit Read_fact_memory s
      in case fact_memory_file s0 of
           Absent \<Rightarrow> (Inl FileNotFoundError, s0)
         | Denied \<Rightarrow> (Inl PermissionError, s0)
         | Holds content \<Rightarrow> (Inr (universal_newlines content), s0))"

section \<open>The Interaction Store\<close>

definition json_load :: "inst_content disk_file \<Rightarrow> error + json" where
  \<comment> \<open>open(".inst_memory.json", "r+") and json.load: "r+" opens an existing file only\<close>
  "json_load f =
     (case f of
        Absent \<Rightarrow> Inl FileNotFoundError
      | Denied \<Rightarrow> Inl PermissionError
      | Holds Malformed \<Rightarrow> Inl JSONDecodeError
      | Holds (Document data) \<Rightarrow> Inr data)"

definition dictionary :: "json \<Rightarrow> json \<Rightarrow> json \<Rightarrow> json \<Rightarrow> json" where
  \<comment> \<open>sgpt.py 348-354\<close>
  "dictionary input_text output_text name favorite =
     JObj [(''input'', input_text), (''output'', output_text), (''name'', name),
           (''favorite'', favorite), (''uid'', JBool False)]"

definition write_to_memory :: "json \<Rightarrow> json \<Rightarrow> json \<Rightarrow> json \<Rightarrow> state \<Rightarrow> (error + unit) \<times> state" where
  \<comment> \<open>sgpt.py 347-363: load, \<open>data.append\<close> (a list has it), rewrite the file\<close>
  "write_to_memory input_text output_text name favorite s =
     (let s0 = emit (Call_write_to_memory input_text output_text name favorite) s
      in case json_load (inst_memory s0) of
           Inl e \<Rightarrow> (Inl e, s0)
         | Inr data \<Rightarrow>
             (case data of
                JArr xs \<Rightarrow>
                  (Inr (), s0\<lparr>inst_memory :=
                     Holds (Document (JArr (xs @ [dictionary input_text output_text name favorite])))\<rparr>)
              | _ \<Rightarrow> (Inl AttributeError, s0)))"

section \<open>The command line\<close>

record args =
  prompt :: "string option"
  model :: Model
  max_tokens :: int
  temperature :: rat
  top_probability :: rat
  cache :: bool
  shell :: bool
  execute :: bool
  memorize_fact :: bool
  clear_facts :: bool
  retrieve_fact :: bool
  add_instruction :: bool
  code :: bool
  editor :: bool
  animation :: bool
  spinner :: bool
  set_history :: int
  set_openai_api_key :: "string option"
  set_hugging_face_api_key :: "string option"
  favorite :: bool
  ls_common :: bool
  ls_history :: bool
  ls_memory :: bool

definition fmt :: "string option \<Rightarrow> string" where
  \<comment> \<open>how an f-string renders the prompt: \<open>None\<close> prints as its name\<close>
  "fmt p = (case p of None \<Rightarrow> ''None'' | Some text \<Rightarrow> text)"

definition truthy :: "string option \<Rightarrow> bool" where
  \<comment> \<open>the truth value of \<open>prompt\<close>: \<open>None\<close> and the empty string are false\<close>
  "truthy p = (case p of None \<Rightarrow> False | Some text \<Rightarrow> text \<noteq> [])"

definition json_of_prompt :: "string option \<Rightarrow> json" where
  "json_of_prompt p = (case p of None \<Rightarrow> JNull | Some text \<Rightarrow> JStr text)"

section \<open>The Relevance Filter\<close>

datatype filter_mode = Passthrough | EmbeddingRank

text \<open>
  Modelled from the spec: \<open>filter_facts\<close> is imported from the repository's \<open>utils\<close>
  package, which is not among the sources. The specification's contract (4.3): mode
  passthrough returns the full fact text unchanged; mode embeddingRank hands the query
  and the text to the external ranking service and returns its reduced text, and falls
  back to the full text when the service cannot be reached. main calls it with
  \<open>filter="hf"\<close>, the embedding mode.
\<close>

definition filter_facts :: "env \<Rightarrow> string \<Rightarrow> string \<Rightarrow> filter_mode \<Rightarrow> string \<Rightarrow> string" where
  "filter_facts env query full_fact_text mode credentials =
     (case mode of
        Passthrough \<Rightarrow> full_fact_text
      | EmbeddingRank \<Rightarrow>
          (case embedding_rank env query full_fact_text credentials of
             None \<Rightarrow> full_fact_text
           | Some reduced \<Rightarrow> reduced))"

section \<open>main\<close>

definition add_instruction_branch :: "env \<Rightarrow> args \<Rightarrow> string \<Rightarrow> state \<Rightarrow> (error + unit) \<times> state" where
  \<comment> \<open>sgpt.py 184-222\<close>
  "add_instruction_branch env a openai_api_key s =
     (let s1 = emit (Secho ''Adding new instruction...'' ''green'') s
      in case read_prompt_file env ''prompts/instruction_generation_v2.txt'' of
           Inl e \<Rightarrow> (Inl e, s1)
         | Inr instruction_prompt \<Rightarrow>
             (case prompt a of
                None \<Rightarrow> (Inl TypeError, s1)
              | Some custom_prompt \<Rightarrow>
                  (case openai_request env (Some (instruction_prompt @ '' '' @ custom_prompt))
                          (model a) (max_tokens a) openai_api_key 0 (top_probability a) of
                     Inl e \<Rightarrow> (Inl e, s1)
                   | Inr response \<Rightarrow>
                       (let response_text = strip response;
                            s2 = emit (Typer_writer (JStr response_text) (code a) (shell a) (animation a)) s1;
                            s3 = emit (Input ''Execute? (y/n)'') s2;
                            confirmation = input_reply env;
                            replaced = replace ''lsh'' (''python '' @ script_path env) response_text;
                            s4 = emit (Write_temp_py replaced) s3
                        in if confirmation = ''y''
                           then (Inr (), emit (Os_system ''python temp.py'') s4)
                           else (Inr (), emit (Secho ''Command not executed.'' ''red'') s4)))))"

definition memorize_branch :: "env \<Rightarrow> args \<Rightarrow> state \<Rightarrow> (error + unit) \<times> state" where
  \<comment> \<open>sgpt.py 229-232; \<open>curr_time + " " + prompt\<close> raises TypeError on \<open>None\<close>\<close>
  "memorize_branch env a s =
     (let curr_time = strftime (gmtime env)
      in case prompt a of
           None \<Rightarrow> (Inl TypeError, s)
         | Some p \<Rightarrow> save_fact (curr_time @ '' '' @ p) s)"

definition retrieve_branch :: "env \<Rightarrow> args \<Rightarrow> string \<Rightarrow> state \<Rightarrow> (error + unit) \<times> state" where
  \<comment> \<open>sgpt.py 234-262\<close>
  "retrieve_branch env a openai_api_key s =
     (if \<not> file_exists (fact_memory_file s)
      then (Inr (), emit (Secho ''No facts have been memorized yet.'' ''red'') s)
      else
        (let query = fmt (prompt a)
         in case get_config env ''hugging_face_api_key'' of
              Inl e \<Rightarrow> (Inl e, s)
            | Inr hf_api_key \<Rightarrow>
                (case read_text s of
                   (Inl e, s1) \<Rightarrow> (Inl e, s1)
                 | (Inr all_facts, s1) \<Rightarrow>
                     (let filtered_facts =
                            filter_facts env (''What is '' @ query @ ''?'') all_facts EmbeddingRank hf_api_key
                      in case read_prompt_file env ''prompts/fact_retrieval_v1.txt'' of
                           Inl e \<Rightarrow> (Inl e, s1)
                         | Inr retrieval_prompt \<Rightarrow>
                             (let full_prompt =
                                    retrieval_prompt @ [LF] @ filtered_facts @ [LF] @
                                    '' What is '' @ query @ ''?''
                              in case openai_request env (Some full_prompt) (model a) (max_tokens a)
                                        openai_api_key 0 (top_probability a) of
                                   Inl e \<Rightarrow> (Inl e, s1)
                                 | Inr response \<Rightarrow>
                                     (Inr (), emit (Typer_writer (JStr (strip response))
                                                      (code a) (shell a) (animation a)) s1))))))"

definition configure :: "env \<Rightarrow> string \<Rightarrow> json \<Rightarrow> string \<Rightarrow> bool \<Rightarrow> state \<Rightarrow> (error + unit) \<times> state" where
  \<comment> \<open>\<open>update_config(key, v)\<close> followed by \<open>typer_writer(message, False, False, animation)\<close>\<close>
  "configure env key v message anim s =
     (let s1 = emit (Update_config key v) s
      in case update_config env key v of
           Some e \<Rightarrow> (Inl e, s1)
         | None \<Rightarrow> (Inr (), emit (Typer_writer (JStr message) False False anim) s1))"

definition settings_branch :: "env \<Rightarrow> args \<Rightarrow> state \<Rightarrow> (error + unit) \<times> state" where
  \<comment> \<open>sgpt.py 264-292, entered when there is no prompt and no editor\<close>
  "settings_branch env a s =
     (if set_history a \<noteq> 500 then
        configure env ''history_length'' (JNum (set_history a))
          (''History length set to '' @ py_str (set_history a) @ ''.'') (animation a) s
      else if set_openai_api_key a \<noteq> None then
        configure env ''openai_api_key'' (json_of_prompt (set_openai_api_key a))
          ''OpenAI API key set.'' (animation a) s
      else if set_hugging_face_api_key a \<noteq> None then
        configure env ''hugging_face_api_key'' (json_of_prompt (set_hugging_face_api_key a))
          ''Hugging Face API key set.'' (animation a) s
      else if ls_common a then (Inr (), s)
      else if ls_history a then (Inr (), s)
      else if ls_memory a then
        (case read_text s of
           (Inl e, s1) \<Rightarrow> (Inl e, s1)
         | (Inr all_facts, s1) \<Rightarrow> (Inr (), emit (Print all_facts) s1))
      else (Inl MissingParameter, s))"

definition cache_branch :: "env \<Rightarrow> args \<Rightarrow> state \<Rightarrow> (error + unit) \<times> state" where
  \<comment> \<open>sgpt.py 293-310; \<open>prompt.isdigit()\<close> raises AttributeError on \<open>None\<close>\<close>
  "cache_branch env a s =
     (case prompt a of
        None \<Rightarrow> (Inl AttributeError, s)
      | Some p \<Rightarrow>
          if isdigit p then
            (let s1 = emit Load_inst_memory s
             in case json_load (inst_memory s1) of
               Inl e \<Rightarrow> (Inl e, s1)
             | Inr data \<Rightarrow>
                 (case py_len data of
                    Inl e \<Rightarrow> (Inl e, s1)
                  | Inr N \<Rightarrow>
                      (case py_int (int_max_str_digits env) p of
                         Inl e \<Rightarrow> (Inl e, s1)
                       | Inr i \<Rightarrow>
                           if i \<ge> N then (Inr (), emit (Print ''Index is out of range'') s1)
                           else
                             (let reversed_index = N - i - 1
                              in case getitem_int data reversed_index of
                                   Inl e \<Rightarrow> (Inl e, s1)
                                 | Inr entry \<Rightarrow>
                                     (case getitem_str entry ''output'' of
                                        Inl e \<Rightarrow> (Inl e, s1)
                                      | Inr output \<Rightarrow>
                                          (Inr (), emit (Typer_writer output (code a) (shell a)
                                                           (animation a)) s1))))))
          else (Inr (), emit (Print ''need to implement lol'') s))"

definition completion_branch :: "env \<Rightarrow> args \<Rightarrow> string \<Rightarrow> state \<Rightarrow> (error + unit) \<times> state" where
  \<comment> \<open>sgpt.py 312-344\<close>
  "completion_branch env a openai_api_key s =
     (let defaults = (temperature a = 1 \<and> 1 = top_probability a);
          temperature1 = (if shell a then (if defaults then 2 / 10 else temperature a)
                          else if code a then (if defaults then 8 / 10 else temperature a)
                          else temperature a);
          top_probability1 = (if shell a then (if defaults then 9 / 10 else top_probability a)
                              else if code a then (if defaults then 2 / 10 else top_probability a)
                              else top_probability a);
          prompt1 = (if shell a then Some (fmt (prompt a) @ ''. Provide only shell command as output.'')
                     else if code a then Some (fmt (prompt a) @ ''. Provide only code as output.'')
                     else prompt a);
          max_tokens1 = (if model a = curie \<and> max_tokens a = 2048 then 1024 else max_tokens a);
          prompt2 = (if editor a then Some (get_edited_prompt env) else prompt1)
      in case openai_request env prompt2 (model a) max_tokens1 openai_api_key
                temperature1 top_probability1 of
           Inl e \<Rightarrow> (Inl e, s)
         | Inr response \<Rightarrow>
             (let response_text = strip response;
                  s1 = emit (Typer_writer (JStr response_text) (code a) (shell a) (animation a)) s
              in case (if shell a
                       then write_to_memory (json_of_prompt prompt2) (JStr response_text)
                              (JStr ''bro'') (JBool (favorite a)) s1
                       else (Inr (), s1)) of
                   (Inl e, s2) \<Rightarrow> (Inl e, s2)
                 | (Inr u, s2) \<Rightarrow>
                     if shell a \<and> execute a then
                       (let s3 = emit (Confirm ''Execute shell command?'') s2
                        in if confirm_reply env then (Inr (), emit (Os_system response_text) s3)
                           else (Inr (), s3))
                     else (Inr (), s2)))"

definition main :: "env \<Rightarrow> args \<Rightarrow> state \<Rightarrow> (error + unit) \<times> state" where
  \<comment> \<open>sgpt.py 117-344: the branches in the order of the source, each ending the run\<close>
  "main env a s =
     (case get_config env ''openai_api_key'' of
        Inl e \<Rightarrow> (Inl e, s)
      | Inr openai_api_key \<Rightarrow>
          if add_instruction a then add_instruction_branch env a openai_api_key s
          else if clear_facts a then clear_fact_memory s
          else if memorize_fact a then memorize_branch env a s
          else if retrieve_fact a then retrieve_branch env a openai_api_key s
          else if \<not> truthy (prompt a) \<and> \<not> editor a then settings_branch env a s
          else if cache a then cache_branch env a s
          else completion_branch env a openai_api_key s)"

section \<open>Notions the properties are stated with\<close>

fun is_memory_op :: "event \<Rightarrow> bool" where
  "is_memory_op Call_clear_fact_memory = True"
| "is_memory_op (Call_save_fact t) = True"
| "is_memory_op (Call_write_to_memory i r n f) = True"
| "is_memory_op Read_fact_memory = True"
| "is_memory_op Load_inst_memory = True"
| "is_memory_op e = False"

fun is_typer_writer :: "event \<Rightarrow> bool" where
  \<comment> \<open>the events that hand an answer or a stored record to the terminal writer\<close>
  "is_typer_writer (Typer_writer out c sh an) = True"
| "is_typer_writer e = False"

definition new_events :: "state \<Rightarrow> (error + unit) \<times> state \<Rightarrow> event list" where
  \<comment> \<open>what a run from \<open>s\<close> added to the trace\<close>
  "new_events s r = drop (length (trace s)) (trace (snd r))"

definition memory_ops :: "state \<Rightarrow> (error + unit) \<times> state \<Rightarrow> event list" where
  "memory_ops s r = filter is_memory_op (new_events s r)"

definition stored_records :: "state \<Rightarrow> json list" where
  "stored_records s =
     (case inst_memory s of Holds (Document (JArr xs)) \<Rightarrow> xs | _ \<Rightarrow> [])"

definition persistence_error :: "error \<Rightarrow> bool" where
  \<comment> \<open>the exceptions of a missing, unreadable or corrupt backing file\<close>
  "persistence_error e = (e = FileNotFoundError \<or> e = PermissionError \<or> e = JSONDecodeError)"

definition facts_wf :: "string disk_file \<Rightarrow> bool" where
  \<comment> \<open>a fact file as \<open>save_fact\<close> leaves it: absent, or whole lines only\<close>
  "facts_wf f = (case f of Absent \<Rightarrow> True | Denied \<Rightarrow> False
                 | Holds content \<Rightarrow> content = [] \<or> last content = LF)"

definition has_fact_line :: "string \<Rightarrow> string \<Rightarrow> bool" where
  \<comment> \<open>some line of the text ends in \<open>x\<close> and starts with a timestamp\<close>
  "has_fact_line x text =
     list_ex (\<lambda>l. suffix x l \<and> timestamp_pattern (take 19 l)) (split_lines text)"

subsection \<open>Concrete runs\<close>

definition default_args :: args where
  \<comment> \<open>the defaults of the options, sgpt.py 118-180\<close>
  "default_args =
     \<lparr>prompt = None, model = davinci, max_tokens = 2048, temperature = 1,
      top_probability = 1, cache = False, shell = False, execute = False,
      memorize_fact = False, clear_facts = False, retrieve_fact = False,
      add_instruction = False, code = False, editor = False, animation = True,
      spinner = True, set_history = 500, set_openai_api_key = None,
      set_hugging_face_api_key = None, favorite = False, ls_common = False,
      ls_history = False, ls_memory = False\<rparr>"

definition example_env :: env where
  \<comment> \<open>14 March 2023, 09:05:07 UTC, on a machine one hour ahead of UTC, with the
      interpreter's default digit limit\<close>
  "example_env =
     \<lparr>get_config = (\<lambda>key. Inr ''secret''),
      update_config = (\<lambda>key v. None),
      gmtime = \<lparr>tm_year = 2023, tm_mon = 3, tm_mday = 14, tm_hour = 9, tm_min = 5, tm_sec = 7\<rparr>,
      localtime = \<lparr>tm_year = 2023, tm_mon = 3, tm_mday = 14, tm_hour = 10, tm_min = 5, tm_sec = 7\<rparr>,
      script_path = ''/opt/sgpt.py'',
      read_prompt_file = (\<lambda>path. Inr ''Answer from these facts.''),
      openai_request = (\<lambda>p m n key t tp. Inr '' ls -la ''),
      embedding_rank = (\<lambda>query text key. None),
      input_reply = ''n'',
      confirm_reply = False,
      get_edited_prompt = [],
      int_max_str_digits = 4300\<rparr>"

definition fresh_state :: state where
  \<comment> \<open>no fact file yet, an interaction file holding the empty list\<close>
  "fresh_state =
     \<lparr>shellgpt_dir = False, fact_memory_file = Absent,
      inst_memory = Holds (Document (JArr [])), trace = []\<rparr>"

definition two_records :: state where
  \<comment> \<open>after remembering "list files" and then "show date"\<close>
  "two_records =
     fresh_state\<lparr>inst_memory := Holds (Document (JArr
       [dictionary (JStr ''list files'') (JStr ''ls -la'') (JStr ''bro'') (JBool False),
        dictionary (JStr ''show date'') (JStr ''date'') (JStr ''bro'') (JBool False)]))\<rparr>"

definition recall_args :: "string \<Rightarrow> args" where
  \<comment> \<open>\<open>sgpt --cache TOKEN\<close>\<close>
  "recall_args p = default_args\<lparr>cache := True, prompt := Some p\<rparr>"

definition long_token :: string where
  \<comment> \<open>a decimal token of 4301 digits, one more than the default digit limit\<close>
  "long_token = replicate 4301 (CHR ''9'')"

definition memorize_args :: "string \<Rightarrow> args" where
  \<comment> \<open>\<open>sgpt --memorize FACT\<close>\<close>
  "memorize_args x = default_args\<lparr>memorize_fact := True, prompt := Some x\<rparr>"

definition every_flag :: args where
  \<comment> \<open>the four memory flags at once\<close>
  "every_flag =
     default_args\<lparr>clear_facts := True, memorize_fact := True, retrieve_fact := True,
                   cache := True, prompt := Some ''0''\<rparr>"

section \<open>Basic facts\<close>

lemma inst_memory_emit [simp]: "inst_memory (emit e s) = inst_memory s"
  by (simp add: emit_def)

lemma fact_memory_file_emit [simp]: "fact_memory_file (emit e s) = fact_memory_file s"
  by (simp add: emit_def)

lemma shellgpt_dir_emit [simp]: "shellgpt_dir (emit e s) = shellgpt_dir s"
  by (simp add: emit_def)

lemma trace_emit [simp]: "trace (emit e s) = trace s @ [e]"
  by (simp add: emit_def)

lemma isdigit_nonempty: "isdigit p \<Longrightarrow> truthy (Some p)"
  by (simp add: isdigit_def truthy_def)

lemma list_all_replicate: "list_all P (replicate n x) = (n = 0 \<or> P x)"
  by (induction n) auto

lemma nines_value:
  "foldl (\<lambda>acc c. 10 * acc + digit_val c) a (replicate n (CHR ''9'')) = (a + 1) * 10 ^ n - 1"
  by (induction n arbitrary: a) (simp_all add: digit_val_def algebra_simps)

lemma isdigit_nines: "0 < n \<Longrightarrow> isdigit (replicate n (CHR ''9''))"
  by (simp add: isdigit_def list_all_replicate isdigit_char_def isdecimal_char_def)

lemma py_int_nines:
  "0 < n \<Longrightarrow>
   py_int m (replicate n (CHR ''9'')) = (if 0 < m \<and> m < n then Inl ValueError else Inr (10 ^ n - 1))"
  using nines_value [of 0 n]
  by (simp add: py_int_def list_all_replicate isdecimal_char_def)

lemma long_token_isdigit: "isdigit long_token"
  unfolding long_token_def by (rule isdigit_nines) simp

lemma long_token_refused: "py_int 4300 long_token = Inl ValueError"
proof -
  have "py_int 4300 (replicate 4301 (CHR ''9''))
          = (if (0::nat) < 4300 \<and> (4300::nat) < 4301 then Inl ValueError else Inr (10 ^ 4301 - 1))"
    by (rule py_int_nines) simp
  also have "\<dots> = Inl ValueError"
    by (rule if_P) simp
  finally show ?thesis unfolding long_token_def .
qed

lemma long_token_value: "py_int 0 long_token = Inr (10 ^ 4301 - 1)"
proof -
  have "py_int 0 (replicate 4301 (CHR ''9''))
          = (if (0::nat) < 0 \<and> (0::nat) < 4301 then Inl ValueError else Inr (10 ^ 4301 - 1))"
    by (rule py_int_nines) simp
  also have "\<dots> = Inr (10 ^ 4301 - 1)"
    by (rule if_not_P) simp
  finally show ?thesis unfolding long_token_def .
qed

lemma main_cache:
  assumes "get_config env ''openai_api_key'' = Inr k"
    and "\<not> add_instruction a" "\<not> clear_facts a" "\<not> memorize_fact a" "\<not> retrieve_fact a"
    and "cache a" "truthy (prompt a) \<or> editor a"
  shows "main env a s = cache_branch env a s"
  using assms by (auto simp add: main_def)

lemma main_memorize:
  assumes "get_config env ''openai_api_key'' = Inr k"
    and "\<not> add_instruction a" "\<not> clear_facts a" "memorize_fact a" "prompt a = Some x"
  shows "main env a s = save_fact (strftime (gmtime env) @ '' '' @ x) s"
  using assms by (simp add: main_def memorize_branch_def)

section \<open>The Interaction Store: recall by reverse index\<close>

text \<open>
  C1. With \<open>--cache\<close> and a decimal token of value \<open>i\<close> below the number \<open>N\<close> of stored
  records, main looks up the record at position \<open>N - i - 1\<close> and hands its \<open>output\<close>
  field to the writer: index 0 is the last record of the list (the one appended most
  recently), index \<open>N - 1\<close> the first.
\<close>

theorem recall_reverse_index:
  assumes "get_config env ''openai_api_key'' = Inr k"
    and "\<not> add_instruction a" "\<not> clear_facts a" "\<not> memorize_fact a" "\<not> retrieve_fact a"
    and "cache a" "prompt a = Some p" "isdigit p"
    and "py_int (int_max_str_digits env) p = Inr (int i)"
    and "inst_memory s = Holds (Document (JArr xs))" "i < length xs"
    and "getitem_str (xs ! (length xs - i - 1)) ''output'' = Inr out"
  shows "main env a s =
           (Inr (), emit (Typer_writer out (code a) (shell a) (animation a)) (emit Load_inst_memory s))
         \<and> (i = 0 \<longrightarrow> xs ! (length xs - i - 1) = last xs)
         \<and> (i = length xs - 1 \<longrightarrow> xs ! (length xs - i - 1) = hd xs)"
proof -
  have m: "main env a s = cache_branch env a s"
    using assms isdigit_nonempty [of p] by (simp add: main_cache)
  have idx: "nat (int (length xs) - int i - 1) = length xs - i - 1"
    using assms(11) by simp
  have "cache_branch env a s =
          (Inr (), emit (Typer_writer out (code a) (shell a) (animation a)) (emit Load_inst_memory s))"
    using assms idx by (simp add: cache_branch_def json_load_def Let_def)
  moreover have "i = 0 \<longrightarrow> xs ! (length xs - i - 1) = last xs"
    using assms(11) by (auto simp add: last_conv_nth)
  moreover have "i = length xs - 1 \<longrightarrow> xs ! (length xs - i - 1) = hd xs"
    using assms(11) by (cases xs) auto
  ultimately show ?thesis using m by simp
qed

theorem recall_reverse_index_witness:
  "main example_env (recall_args ''0'') two_records =
     (Inr (), emit (Typer_writer (JStr ''date'') False False True) (emit Load_inst_memory two_records))"
  using recall_reverse_index [of example_env "''secret''" "recall_args ''0''" "''0''" 0 two_records
      "stored_records two_records" "JStr ''date''"]
  by (simp add: example_env_def recall_args_def default_args_def two_records_def fresh_state_def
      stored_records_def isdigit_def isdigit_char_def isdecimal_char_def py_int_def digit_val_def
      dictionary_def)

text \<open>
  With \<open>--cache\<close> and a token that \<open>int\<close> converts to a value \<open>i\<close> at or beyond the
  number of stored records, main prints "Index is out of range" and returns normally:
  nothing is raised, no record reaches the writer and no file changes.
\<close>

lemma recall_out_of_range:
  assumes "get_config env ''openai_api_key'' = Inr k"
    and "\<not> add_instruction a" "\<not> clear_facts a" "\<not> memorize_fact a" "\<not> retrieve_fact a"
    and "cache a" "prompt a = Some p" "isdigit p"
    and "py_int (int_max_str_digits env) p = Inr i"
    and "inst_memory s = Holds (Document (JArr xs))" "int (length xs) \<le> i"
  shows "main env a s = (Inr (), emit (Print ''Index is out of range'') (emit Load_inst_memory s))"
proof -
  have "main env a s = cache_branch env a s"
    using assms isdigit_nonempty [of p] by (simp add: main_cache)
  then show ?thesis
    using assms by (simp add: cache_branch_def json_load_def)
qed

lemma recall_out_of_range_example:
  "main example_env (recall_args ''2'') two_records =
     (Inr (), emit (Print ''Index is out of range'') (emit Load_inst_memory two_records))"
  using recall_out_of_range [of example_env "''secret''" "recall_args ''2''" "''2''" 2 two_records
      "stored_records two_records"]
  by (simp add: example_env_def recall_args_def default_args_def two_records_def fresh_state_def
      stored_records_def isdigit_def isdigit_char_def isdecimal_char_def py_int_def digit_val_def)

text \<open>
  C2. The out-of-range report is not reached for an index written with more digits than
  \<open>int\<close> converts. The token of 4301 nines is a digit string and, as a number,
  \<open>10 ^ 4301 - 1\<close>, beyond the two stored records; under the default limit of 4300 digits
  \<open>int(prompt)\<close> raises ValueError after the store was loaded, and the run ends with that
  exception instead of the report.
\<close>

theorem recall_long_token_raises:
  "isdigit long_token
   \<and> py_int 0 long_token = Inr (10 ^ 4301 - 1)
   \<and> main example_env (recall_args long_token) two_records
       = (Inl ValueError, emit Load_inst_memory two_records)"
proof -
  have "cache_branch example_env (recall_args long_token) two_records
               = (Inl ValueError, emit Load_inst_memory two_records)"
    by (simp add: cache_branch_def recall_args_def default_args_def example_env_def json_load_def
        two_records_def fresh_state_def long_token_isdigit long_token_refused)
  moreover have "main example_env (recall_args long_token) two_records
                   = cache_branch example_env (recall_args long_token) two_records"
    using isdigit_nonempty [OF long_token_isdigit]
    by (simp add: main_cache [where k = "''secret''"] example_env_def recall_args_def
        default_args_def)
  ultimately show ?thesis
    using long_token_isdigit long_token_value by (simp only: simp_thms)
qed

section \<open>The Interaction Store: append\<close>

text \<open>
  C3. On an interaction file that holds a list, \<open>write_to_memory\<close> succeeds, the stored
  list is the old one followed by the new record, so its length grows by exactly one
  and the old records keep their values and their order; the fact file is untouched.
\<close>

theorem write_to_memory_appends:
  assumes "inst_memory s = Holds (Document (JArr xs))"
  shows "fst (write_to_memory i r n f s) = Inr ()
       \<and> stored_records (snd (write_to_memory i r n f s)) = xs @ [dictionary i r n f]
       \<and> length (stored_records (snd (write_to_memory i r n f s))) = length (stored_records s) + 1
       \<and> take (length (stored_records s)) (stored_records (snd (write_to_memory i r n f s)))
           = stored_records s
       \<and> fact_memory_file (snd (write_to_memory i r n f s)) = fact_memory_file s"
  using assms by (simp add: write_to_memory_def json_load_def stored_records_def Let_def)

theorem write_to_memory_appends_witness:
  "stored_records (snd (write_to_memory (JStr ''free space'') (JStr ''df -h'') (JStr ''bro'')
       (JBool False) two_records))
     = stored_records two_records
       @ [dictionary (JStr ''free space'') (JStr ''df -h'') (JStr ''bro'') (JBool False)]"
  using write_to_memory_appends [of two_records "stored_records two_records"
      "JStr ''free space''" "JStr ''df -h''" "JStr ''bro''" "JBool False"]
  by (simp add: two_records_def fresh_state_def stored_records_def)

text \<open>
  C8. \<open>write_to_memory\<close> on an interaction file that is missing, unreadable or not JSON
  raises (FileNotFoundError, PermissionError or JSONDecodeError) and leaves the file as
  it was: it creates nothing. \<open>save_fact\<close> on a missing fact file, by contrast, creates
  the file with the new line.
\<close>

theorem write_to_memory_needs_store:
  assumes "inst_memory s = Absent \<or> inst_memory s = Denied \<or> inst_memory s = Holds Malformed"
  shows "(case fst (write_to_memory i r n f s) of Inl e \<Rightarrow> persistence_error e | Inr u \<Rightarrow> False)
       \<and> inst_memory (snd (write_to_memory i r n f s)) = inst_memory s
       \<and> (fact_memory_file s = Absent \<longrightarrow>
            fst (save_fact t s) = Inr () \<and> fact_memory_file (snd (save_fact t s)) = Holds (t @ [LF]))"
  using assms
  by (auto simp add: write_to_memory_def json_load_def persistence_error_def save_fact_def
      file_exists_def Let_def)

theorem write_to_memory_needs_store_witness:
  "fst (write_to_memory (JStr ''list files'') (JStr ''ls -la'') (JStr ''bro'') (JBool False)
          (fresh_state\<lparr>inst_memory := Absent\<rparr>)) = Inl FileNotFoundError
   \<and> inst_memory (snd (write_to_memory (JStr ''list files'') (JStr ''ls -la'') (JStr ''bro'')
          (JBool False) (fresh_state\<lparr>inst_memory := Absent\<rparr>))) = Absent
   \<and> fact_memory_file (snd (save_fact ''tea'' (fresh_state\<lparr>inst_memory := Absent\<rparr>)))
       = Holds ''tea\<newline>''"
  using write_to_memory_needs_store [of "fresh_state\<lparr>inst_memory := Absent\<rparr>"
      "JStr ''list files''" "JStr ''ls -la''" "JStr ''bro''" "JBool False" "''tea''"]
  by (simp add: fresh_state_def write_to_memory_def json_load_def Let_def)

section \<open>The cache token\<close>

text \<open>
  C7, as the code has it. For a token that \<open>str.isdigit\<close> refuses (a signed or fractional
  number such as "-1" or "1.5") no InvalidIndex exists. When the token is not empty, or
  \<open>--editor\<close> is given, the run does not fail: it returns normally, reads and changes
  neither store, hands nothing to the writer and does not print the out-of-range report.
  The empty token without \<open>--editor\<close> counts as no prompt at all: the run takes the
  settings path and recall is not reached.
\<close>

theorem recall_non_digit:
  assumes "get_config env ''openai_api_key'' = Inr k"
    and "\<not> add_instruction a" "\<not> clear_facts a" "\<not> memorize_fact a" "\<not> retrieve_fact a"
    and "cache a" "prompt a = Some p" "\<not> isdigit p"
  shows "(p \<noteq> [] \<or> editor a \<longrightarrow>
            fst (main env a s) = Inr ()
          \<and> memory_ops s (main env a s) = []
          \<and> filter is_typer_writer (new_events s (main env a s)) = []
          \<and> Print ''Index is out of range'' \<notin> set (new_events s (main env a s))
          \<and> inst_memory (snd (main env a s)) = inst_memory s
          \<and> fact_memory_file (snd (main env a s)) = fact_memory_file s)
       \<and> (p = [] \<and> \<not> editor a \<longrightarrow> main env a s = settings_branch env a s)"
proof -
  have "main env a s = (Inr (), emit (Print ''need to implement lol'') s)" if "p \<noteq> [] \<or> editor a"
  proof -
    have "main env a s = cache_branch env a s"
      using assms that by (simp add: main_cache truthy_def)
    then show ?thesis using assms by (simp add: cache_branch_def)
  qed
  moreover have "main env a s = settings_branch env a s" if "p = [] \<and> \<not> editor a"
    using assms that by (simp add: main_def truthy_def)
  ultimately show ?thesis
    by (simp add: memory_ops_def new_events_def)
qed

theorem recall_non_digit_witness:
  "fst (main example_env (recall_args ''1.5'') two_records) = Inr ()
   \<and> memory_ops two_records (main example_env (recall_args ''1.5'') two_records) = []
   \<and> inst_memory (snd (main example_env (recall_args ''1.5'') two_records))
       = inst_memory two_records
   \<and> main example_env (recall_args []) two_records = (Inl MissingParameter, two_records)"
  using recall_non_digit [of example_env "''secret''" "recall_args ''1.5''" "''1.5''" two_records]
    recall_non_digit [of example_env "''secret''" "recall_args []" "[]" two_records]
  by (simp add: example_env_def recall_args_def default_args_def isdigit_def isdigit_char_def
      isdecimal_char_def settings_branch_def)

text \<open>
  C7 as stated fails: the token "-1" is numeric and no non-negative integer, and the run
  ends normally instead of failing.
\<close>

theorem recall_non_digit_counterexample:
  "\<not> isdigit ''-1''
   \<and> fst (main example_env (recall_args ''-1'') two_records) = Inr ()"
  by (simp add: main_def cache_branch_def example_env_def recall_args_def default_args_def
      truthy_def isdigit_def isdigit_char_def isdecimal_char_def)

section \<open>The Relevance Filter\<close>

text \<open>
  C9. In mode passthrough the filter returns the fact text it was given, for every query,
  every text (the empty one included) and every credential.
\<close>

theorem filter_passthrough: "filter_facts env query text Passthrough credentials = text"
  by (simp add: filter_facts_def)

section \<open>Reading a Fact Store that was never created\<close>

text \<open>
  C4. With no fact file, \<open>--retrieve\<close> checks for the file, prints a message and returns;
  \<open>--list_memory\<close> reads the file without the check and raises FileNotFoundError.
\<close>

theorem list_memory_absent_raises:
  "main example_env (default_args\<lparr>ls_memory := True\<rparr>) fresh_state
     = (Inl FileNotFoundError, emit Read_fact_memory fresh_state)
   \<and> main example_env (default_args\<lparr>retrieve_fact := True\<rparr>) fresh_state
     = (Inr (), emit (Secho ''No facts have been memorized yet.'' ''red'') fresh_state)"
  by (simp add: main_def settings_branch_def retrieve_branch_def read_text_def file_exists_def
      truthy_def example_env_def default_args_def fresh_state_def emit_def)

section \<open>The timestamp and the lines of the fact file\<close>

subsection \<open>Decimal digits\<close>

lemma isdecimal_char_of: "(k::nat) < 10 \<Longrightarrow> isdecimal_char (char_of (48 + k))"
  by (simp add: isdecimal_char_def)

lemma digits10_decimal: "c \<in> set (digits10 n) \<Longrightarrow> isdecimal_char c"
proof (induction n rule: digits10.induct)
  case (1 n)
  show ?case
  proof (cases "n < 10")
    case True
    with "1.prems" show ?thesis
      by (simp add: digits10.simps [of n] isdecimal_char_of)
  next
    case False
    with "1.prems" "1.IH" show ?thesis
      by (auto simp add: digits10.simps [of n] isdecimal_char_of)
  qed
qed

lemma digits10_one: "n < 10 \<Longrightarrow> digits10 n = [char_of (48 + n)]"
  by (simp add: digits10.simps [of n])

lemma digits10_two:
  "10 \<le> n \<Longrightarrow> n < 100 \<Longrightarrow> digits10 n = [char_of (48 + n div 10), char_of (48 + n mod 10)]"
  by (simp add: digits10.simps [of n] digits10_one)

lemma digits10_three:
  "100 \<le> n \<Longrightarrow> n < 1000 \<Longrightarrow>
   digits10 n = digits10 (n div 10) @ [char_of (48 + n mod 10)] \<and> length (digits10 (n div 10)) = 2"
  by (simp add: digits10.simps [of n] digits10_two)

lemma length_digits10_four: "1000 \<le> n \<Longrightarrow> n \<le> 9999 \<Longrightarrow> length (digits10 n) = 4"
proof -
  assume a: "1000 \<le> n" "n \<le> 9999"
  then have "100 \<le> n div 10" "n div 10 < 1000" by auto
  then have "length (digits10 (n div 10)) = 3"
    using digits10_three [of "n div 10"] by simp
  with a show ?thesis by (simp add: digits10.simps [of n])
qed

lemma length_pad2: "n < 100 \<Longrightarrow> length (pad2 n) = 2"
  by (cases "n < 10") (simp_all add: pad2_def digits10_one digits10_two)

lemma pad2_decimal: "c \<in> set (pad2 n) \<Longrightarrow> isdecimal_char c"
  by (auto simp add: pad2_def isdecimal_char_def dest: digits10_decimal split: if_splits)


lemma pad2_two:
  assumes "n < 100"
  shows "\<exists>a b. pad2 n = [a, b] \<and> isdecimal_char a \<and> isdecimal_char b"
proof -
  from assms have "length (pad2 n) = 2" by (rule length_pad2)
  then obtain a b where ab: "pad2 n = [a, b]"
    by (auto simp add: length_Suc_conv numeral_2_eq_2)
  then have "isdecimal_char a" "isdecimal_char b"
    using pad2_decimal [of a n] pad2_decimal [of b n] by simp_all
  with ab show ?thesis by blast
qed

lemma digits10_four:
  assumes "1000 \<le> n" "n \<le> 9999"
  shows "\<exists>a b c d. digits10 n = [a, b, c, d] \<and> isdecimal_char a \<and> isdecimal_char b
           \<and> isdecimal_char c \<and> isdecimal_char d"
proof -
  from assms have "length (digits10 n) = 4" by (rule length_digits10_four)
  then obtain a b c d where abcd: "digits10 n = [a, b, c, d]"
    by (auto simp add: length_Suc_conv eval_nat_numeral)
  then have "isdecimal_char a" "isdecimal_char b" "isdecimal_char c" "isdecimal_char d"
    using digits10_decimal [of a n] digits10_decimal [of b n]
      digits10_decimal [of c n] digits10_decimal [of d n] by simp_all
  with abcd show ?thesis by blast
qed

lemma strftime_pattern:
  assumes "valid_time t"
  shows "timestamp_pattern (strftime t) \<and> length (strftime t) = 19"
proof -
  from assms obtain h1 h2 where h: "pad2 (tm_hour t) = [h1, h2]" "isdecimal_char h1" "isdecimal_char h2"
    using pad2_two [of "tm_hour t"] by (auto simp add: valid_time_def)
  from assms obtain m1 m2 where m: "pad2 (tm_min t) = [m1, m2]" "isdecimal_char m1" "isdecimal_char m2"
    using pad2_two [of "tm_min t"] by (auto simp add: valid_time_def)
  from assms obtain s1 s2 where s: "pad2 (tm_sec t) = [s1, s2]" "isdecimal_char s1" "isdecimal_char s2"
    using pad2_two [of "tm_sec t"] by (auto simp add: valid_time_def)
  from assms obtain d1 d2 where d: "pad2 (tm_mday t) = [d1, d2]" "isdecimal_char d1" "isdecimal_char d2"
    using pad2_two [of "tm_mday t"] by (auto simp add: valid_time_def)
  from assms obtain o1 o2 where o: "pad2 (tm_mon t) = [o1, o2]" "isdecimal_char o1" "isdecimal_char o2"
    using pad2_two [of "tm_mon t"] by (auto simp add: valid_time_def)
  from assms obtain y1 y2 y3 y4 where y: "digits10 (tm_year t) = [y1, y2, y3, y4]"
      "isdecimal_char y1" "isdecimal_char y2" "isdecimal_char y3" "isdecimal_char y4"
    using digits10_four [of "tm_year t"] by (auto simp add: valid_time_def)
  show ?thesis
    by (simp add: strftime_def timestamp_pattern_def h m s d o y)
qed

lemma strftime_no_break: "LF \<notin> set (strftime t) \<and> CR \<notin> set (strftime t)"
proof -
  have "\<not> isdecimal_char LF" "\<not> isdecimal_char CR"
    by (simp_all add: isdecimal_char_def)
  then have "LF \<notin> set (pad2 n)" "CR \<notin> set (pad2 n)" "LF \<notin> set (digits10 n)" "CR \<notin> set (digits10 n)" for n
    using pad2_decimal digits10_decimal by blast+
  then show ?thesis by (simp add: strftime_def)
qed

subsection \<open>Lines\<close>

lemma split_lines_line: "LF \<notin> set l \<Longrightarrow> split_lines (l @ [LF]) = [l]"
  by (induction l) auto

lemma split_lines_empty: "split_lines u = [] \<longleftrightarrow> u = []"
  by (cases u) (auto split: list.splits)

lemma split_lines_append:
  "u = [] \<or> last u = LF \<Longrightarrow> split_lines (u @ v) = split_lines u @ split_lines v"
proof (induction u)
  case Nil
  then show ?case by simp
next
  case (Cons c u)
  show ?case
  proof (cases "c = LF")
    case True
    with Cons show ?thesis by (auto split: if_splits)
  next
    case False
    with Cons.prems have u: "u \<noteq> []" "last u = LF" by (auto split: if_splits)
    with Cons.IH have "split_lines (u @ v) = split_lines u @ split_lines v" by simp
    moreover from u have "split_lines u \<noteq> []" by (simp add: split_lines_empty)
    ultimately show ?thesis using False by (auto split: list.splits)
  qed
qed

lemma universal_newlines_cons:
  "c \<noteq> CR \<Longrightarrow> universal_newlines (c # b) = c # universal_newlines b"
  by (cases b) auto

lemma universal_newlines_id: "CR \<notin> set l \<Longrightarrow> universal_newlines l = l"
  by (induction l) (auto simp add: universal_newlines_cons)

lemma universal_newlines_append:
  "a = [] \<or> last a \<noteq> CR \<Longrightarrow>
   universal_newlines (a @ b) = universal_newlines a @ universal_newlines b"
proof (induction a rule: universal_newlines.induct)
  case 1
  then show ?case by simp
next
  case (2 c)
  then show ?case by (simp add: universal_newlines_cons)
next
  case (3 c d cs)
  then show ?case by (auto split: if_splits)
qed

lemma universal_newlines_last:
  "a \<noteq> [] \<Longrightarrow> last a = LF \<Longrightarrow>
   universal_newlines a \<noteq> [] \<and> last (universal_newlines a) = LF"
proof (induction a rule: universal_newlines.induct)
  case 1
  then show ?case by simp
next
  case (2 c)
  then show ?case by simp
next
  case (3 c d cs)
  then show ?case by (auto split: if_splits)
qed


lemma read_after_line:
  assumes "u = [] \<or> last u = LF" "LF \<notin> set l" "CR \<notin> set l"
  shows "split_lines (universal_newlines (u @ l @ [LF])) = split_lines (universal_newlines u) @ [l]"
proof -
  have "CR \<notin> set (l @ [LF])" using assms(3) by simp
  then have l: "universal_newlines (l @ [LF]) = l @ [LF]" by (rule universal_newlines_id)
  from assms(1) have "u = [] \<or> last u \<noteq> CR" by auto
  then have "universal_newlines (u @ l @ [LF]) = universal_newlines u @ l @ [LF]"
    using universal_newlines_append [of u "l @ [LF]"] l by simp
  moreover have "universal_newlines u = [] \<or> last (universal_newlines u) = LF"
    using assms(1) universal_newlines_last [of u] by (cases "u = []") auto
  ultimately show ?thesis
    using split_lines_append [of "universal_newlines u" "l @ [LF]"] split_lines_line [OF assms(2)]
    by simp
qed

subsection \<open>The example clock\<close>

lemma example_stamp: "strftime (gmtime example_env) = ''09:05:07 14/03/2023''"
  by code_simp


lemma example_valid_time: "valid_time (gmtime example_env)"
  by (simp add: valid_time_def example_env_def)

lemma example_local_stamp: "strftime (localtime example_env) = ''10:05:07 14/03/2023''"
  by code_simp

section \<open>The Fact Store: memorize, then read\<close>

text \<open>
  C5, as the code has it. After \<open>--memorize X\<close> succeeds on a fact file made of whole
  lines, for a fact \<open>X\<close> without line break and a clock with a four-digit year, reading
  the fact file gives a text with the line \<open><stamp> X\<close>: it ends in \<open>X\<close> and starts with
  a timestamp of the shape \<open>HH:MM:SS DD/MM/YYYY\<close>.
\<close>

theorem memorize_then_read:
  assumes "get_config env ''openai_api_key'' = Inr k"
    and "\<not> add_instruction a" "\<not> clear_facts a" "memorize_fact a" "prompt a = Some x"
    and "LF \<notin> set x" "CR \<notin> set x"
    and "facts_wf (fact_memory_file s)" "valid_time (gmtime env)"
  shows "fst (main env a s) = Inr ()
       \<and> (case fst (read_text (snd (main env a s))) of
            Inl e \<Rightarrow> False
          | Inr text \<Rightarrow> has_fact_line x text
                        \<and> strftime (gmtime env) @ '' '' @ x \<in> set (split_lines text))
       \<and> timestamp_pattern (strftime (gmtime env))"
proof -
  let ?stamp = "strftime (gmtime env)"
  let ?l = "?stamp @ '' '' @ x"
  have m: "main env a s = save_fact ?l s"
    using assms by (simp add: main_memorize)
  have pat: "timestamp_pattern ?stamp" "length ?stamp = 19"
    using strftime_pattern [OF assms(9)] by simp_all
  have nb: "LF \<notin> set ?l" "CR \<notin> set ?l"
    using strftime_no_break [of "gmtime env"] assms(6,7) by simp_all
  obtain u where u: "u = [] \<or> last u = LF"
      "save_fact ?l s = (Inr (), (emit (Call_save_fact ?l) s)
         \<lparr>shellgpt_dir := shellgpt_dir s \<or> fact_memory_file s = Absent,
          fact_memory_file := Holds (u @ ?l @ [LF])\<rparr>)"
  proof (cases "fact_memory_file s")
    case Absent
    then have "save_fact ?l s = (Inr (), (emit (Call_save_fact ?l) s)
         \<lparr>shellgpt_dir := shellgpt_dir s \<or> fact_memory_file s = Absent,
          fact_memory_file := Holds ([] @ ?l @ [LF])\<rparr>)"
      by (simp add: save_fact_def file_exists_def Let_def emit_def)
    then show ?thesis using that [of "[]"] by simp
  next
    case Denied
    with assms(8) show ?thesis by (simp add: facts_wf_def)
  next
    case (Holds old)
    then have "save_fact ?l s = (Inr (), (emit (Call_save_fact ?l) s)
         \<lparr>shellgpt_dir := shellgpt_dir s \<or> fact_memory_file s = Absent,
          fact_memory_file := Holds (old @ ?l @ [LF])\<rparr>)"
      by (simp add: save_fact_def file_exists_def Let_def emit_def)
    moreover from Holds assms(8) have "old = [] \<or> last old = LF" by (simp add: facts_wf_def)
    ultimately show ?thesis using that [of old] by simp
  qed
  have lines: "split_lines (universal_newlines (u @ ?l @ [LF])) = split_lines (universal_newlines u) @ [?l]"
    using read_after_line [OF u(1) nb] .
  have fl: "suffix x ?l \<and> timestamp_pattern (take 19 ?l)"
    using pat by (simp add: suffix_def)
  have "fst (read_text (snd (save_fact ?l s))) = Inr (universal_newlines (u @ ?l @ [LF]))"
    using u(2) by (simp add: read_text_def Let_def)
  moreover have "has_fact_line x (universal_newlines (u @ ?l @ [LF]))"
    unfolding has_fact_line_def lines using fl by (simp add: list_ex_iff)
  moreover have "?l \<in> set (split_lines (universal_newlines (u @ ?l @ [LF])))"
    unfolding lines by simp
  ultimately show ?thesis using m u(2) pat(1) by simp
qed

theorem memorize_then_read_witness:
  "fst (main example_env (memorize_args ''coffee machine is broken'') fresh_state) = Inr ()
   \<and> has_fact_line ''coffee machine is broken''
        ''09:05:07 14/03/2023 coffee machine is broken\<newline>''"
  using memorize_then_read [of example_env "''secret''"
      "memorize_args ''coffee machine is broken''" "''coffee machine is broken''" fresh_state]
    example_valid_time example_stamp
  by (simp add: main_memorize save_fact_def read_text_def file_exists_def Let_def emit_def
      memorize_args_def default_args_def fresh_state_def facts_wf_def example_env_def)

text \<open>
  C5 as stated fails for a fact with a line break: the fact "a", newline, "b" is stored
  on two lines, and no line of the text read back ends in the fact.
\<close>

theorem memorize_multiline_counterexample:
  "fst (read_text (snd (main example_env (memorize_args ''a\<newline>b'') fresh_state)))
     = Inr ''09:05:07 14/03/2023 a\<newline>b\<newline>''
   \<and> \<not> has_fact_line ''a\<newline>b'' ''09:05:07 14/03/2023 a\<newline>b\<newline>''"
proof -
  have "main example_env (memorize_args ''a\<newline>b'') fresh_state
          = save_fact (strftime (gmtime example_env) @ '' '' @ ''a\<newline>b'') fresh_state"
    by (rule main_memorize [where k = "''secret''"])
      (simp_all add: example_env_def memorize_args_def default_args_def)
  then have "fst (read_text (snd (main example_env (memorize_args ''a\<newline>b'') fresh_state)))
     = Inr ''09:05:07 14/03/2023 a\<newline>b\<newline>''"
    by (simp add: example_stamp save_fact_def read_text_def file_exists_def Let_def emit_def
        fresh_state_def)
  moreover have "\<not> has_fact_line ''a\<newline>b'' ''09:05:07 14/03/2023 a\<newline>b\<newline>''"
    by code_simp
  ultimately show ?thesis by simp
qed

section \<open>The Fact Store: what \<open>--memorize\<close> appends\<close>

text \<open>
  C6, as the code has it. \<open>--memorize X\<close> on a fact file that is absent or writable
  appends exactly \<open><stamp> X\<close> and a newline after the unchanged old content, where the
  stamp is the UTC time (\<open>gmtime\<close>) formatted \<open>%H:%M:%S %d/%m/%Y\<close>; the parent directory
  is created when the file was absent; the interaction file is untouched; the appended
  text is exactly one line when \<open>X\<close> has no line break.
\<close>

theorem memorize_appends_utc_line:
  assumes "get_config env ''openai_api_key'' = Inr k"
    and "\<not> add_instruction a" "\<not> clear_facts a" "memorize_fact a" "prompt a = Some x"
    and "fact_memory_file s \<noteq> Denied"
  shows "fst (main env a s) = Inr ()
       \<and> fact_memory_file (snd (main env a s)) =
           Holds ((case fact_memory_file s of Holds old \<Rightarrow> old | _ \<Rightarrow> [])
                  @ strftime (gmtime env) @ '' '' @ x @ [LF])
       \<and> (fact_memory_file s = Absent \<longrightarrow> shellgpt_dir (snd (main env a s)))
       \<and> inst_memory (snd (main env a s)) = inst_memory s
       \<and> (valid_time (gmtime env) \<longrightarrow> timestamp_pattern (strftime (gmtime env)))
       \<and> (LF \<notin> set x \<longrightarrow>
            split_lines (strftime (gmtime env) @ '' '' @ x @ [LF]) = [strftime (gmtime env) @ '' '' @ x])"
proof -
  have m: "main env a s = save_fact (strftime (gmtime env) @ '' '' @ x) s"
    using assms by (simp add: main_memorize)
  have "LF \<notin> set x \<longrightarrow>
          split_lines (strftime (gmtime env) @ '' '' @ x @ [LF]) = [strftime (gmtime env) @ '' '' @ x]"
    using split_lines_line [of "strftime (gmtime env) @ '' '' @ x"] strftime_no_break [of "gmtime env"]
    by simp
  moreover have "valid_time (gmtime env) \<longrightarrow> timestamp_pattern (strftime (gmtime env))"
    using strftime_pattern by simp
  ultimately show ?thesis
    using assms(6) unfolding m
    by (cases "fact_memory_file s") (simp_all add: save_fact_def file_exists_def Let_def emit_def)
qed

theorem memorize_appends_utc_line_witness:
  "fact_memory_file (snd (main example_env (memorize_args ''tea'') fresh_state))
     = Holds ''09:05:07 14/03/2023 tea\<newline>''
   \<and> shellgpt_dir (snd (main example_env (memorize_args ''tea'') fresh_state))
   \<and> timestamp_pattern (strftime (gmtime example_env))
   \<and> split_lines (strftime (gmtime example_env) @ '' '' @ ''tea'' @ [LF])
       = [''09:05:07 14/03/2023 tea'']"
  using memorize_appends_utc_line [of example_env "''secret''" "memorize_args ''tea''" "''tea''"
      fresh_state] example_stamp example_valid_time
  by (simp add: memorize_args_def default_args_def fresh_state_def example_env_def)

text \<open>
  C6 as stated fails: on a machine one hour ahead of UTC the line written carries the
  UTC time, not the local wall-clock time.
\<close>

theorem memorize_local_time_counterexample:
  "fact_memory_file (snd (main example_env (memorize_args ''tea'') fresh_state))
     \<noteq> Holds (strftime (localtime example_env) @ '' '' @ ''tea'' @ [LF])"
proof -
  have "main example_env (memorize_args ''tea'') fresh_state
          = save_fact (strftime (gmtime example_env) @ '' '' @ ''tea'') fresh_state"
    by (rule main_memorize [where k = "''secret''"])
      (simp_all add: example_env_def memorize_args_def default_args_def)
  then show ?thesis
    by (simp add: example_stamp example_local_stamp save_fact_def file_exists_def Let_def emit_def
        fresh_state_def)
qed

section \<open>One memory operation per run\<close>

subsection \<open>The store operations of each branch\<close>

lemma ops_none: "memory_ops s (r, s) = []"
  by (simp add: memory_ops_def new_events_def)

lemma ops_clear_fact_memory: "memory_ops s (clear_fact_memory s) = [Call_clear_fact_memory]"
  by (simp add: memory_ops_def new_events_def clear_fact_memory_def Let_def)

lemma ops_save_fact: "memory_ops s (save_fact t s) = [Call_save_fact t]"
  by (simp add: memory_ops_def new_events_def save_fact_def Let_def split: disk_file.splits)

lemma ops_memorize_branch:
  "memory_ops s (memorize_branch env a s) =
     (case prompt a of None \<Rightarrow> [] | Some x \<Rightarrow> [Call_save_fact (strftime (gmtime env) @ '' '' @ x)])"
  by (simp add: memorize_branch_def Let_def ops_save_fact ops_none split: option.splits)

lemma trace_read_text: "trace (snd (read_text s)) = trace s @ [Read_fact_memory]"
  by (simp add: read_text_def Let_def split: disk_file.splits)

lemma ops_retrieve_branch:
  "memory_ops s (retrieve_branch env a k s) = [] \<or>
   memory_ops s (retrieve_branch env a k s) = [Read_fact_memory]"
  by (simp add: retrieve_branch_def memory_ops_def new_events_def Let_def case_prod_beta
      trace_read_text split: sum.splits)

lemma ops_configure: "memory_ops s (configure env key v message anim s) = []"
  by (simp add: configure_def memory_ops_def new_events_def Let_def split: option.splits)

lemma ops_settings_branch:
  "memory_ops s (settings_branch env a s) = [] \<or>
   memory_ops s (settings_branch env a s) = [Read_fact_memory]"
proof -
  have "memory_ops s (case read_text s of
           (Inl e, s1) \<Rightarrow> (Inl e, s1)
         | (Inr all_facts, s1) \<Rightarrow> (Inr (), emit (Print all_facts) s1)) = [Read_fact_memory]"
    by (simp add: memory_ops_def new_events_def case_prod_beta trace_read_text split: sum.splits)
  then show ?thesis
    by (simp add: settings_branch_def ops_configure ops_none)
qed

lemma ops_cache_branch:
  "memory_ops s (cache_branch env a s) = [] \<or>
   memory_ops s (cache_branch env a s) = [Load_inst_memory]"
  by (simp add: cache_branch_def memory_ops_def new_events_def Let_def
      split: sum.splits option.splits)

lemma trace_write_to_memory:
  "trace (snd (write_to_memory i r n f s)) = trace s @ [Call_write_to_memory i r n f]"
  by (simp add: write_to_memory_def Let_def split: sum.splits json.splits)

lemma ops_add_instruction_branch:
  "memory_ops s (add_instruction_branch env a k s) = []"
  by (simp add: add_instruction_branch_def memory_ops_def new_events_def Let_def
      split: sum.splits option.splits)

lemma ops_completion_branch:
  "length (memory_ops s (completion_branch env a k s)) \<le> 1"
proof (cases "shell a")
  case True
  show ?thesis
  proof (cases "execute a \<and> confirm_reply env")
    case True
    with \<open>shell a\<close> show ?thesis
      by (simp add: completion_branch_def memory_ops_def new_events_def Let_def case_prod_beta
          trace_write_to_memory split: sum.splits split del: if_split)
  next
    case False
    with \<open>shell a\<close> show ?thesis
      by (cases "execute a")
        (simp_all add: completion_branch_def memory_ops_def new_events_def Let_def case_prod_beta
          trace_write_to_memory split: sum.splits split del: if_split)
  qed
next
  case False
  then show ?thesis
    by (simp add: completion_branch_def memory_ops_def new_events_def Let_def
        split: sum.splits split del: if_split)
qed

lemma main_at_most_one: "length (memory_ops s (main env a s)) \<le> 1"
proof (cases "get_config env ''openai_api_key''")
  case (Inl e)
  then show ?thesis by (simp add: main_def ops_none)
next
  case (Inr k)
  have "length (memory_ops s (retrieve_branch env a k s)) \<le> 1"
    using ops_retrieve_branch [of s env a k] by auto
  moreover have "length (memory_ops s (settings_branch env a s)) \<le> 1"
    using ops_settings_branch [of s env a] by auto
  moreover have "length (memory_ops s (cache_branch env a s)) \<le> 1"
    using ops_cache_branch [of s env a] by auto
  moreover have "length (memory_ops s (memorize_branch env a s)) \<le> 1"
    by (simp add: ops_memorize_branch split: option.splits)
  ultimately show ?thesis
    using Inr ops_completion_branch [of s env a k]
    by (simp add: main_def ops_clear_fact_memory ops_add_instruction_branch)
qed

subsection \<open>The order of the flags\<close>

text \<open>
  C10. A run of main performs at most one operation on the two stores (a call of
  \<open>clear_fact_memory\<close>, \<open>save_fact\<close> or \<open>write_to_memory\<close>, a read of the fact file, a
  load of the interaction file). Once the configuration is read and \<open>--add_instruction\<close>
  is not given, the flags are served in a fixed order: \<open>--clear_facts\<close> runs
  \<open>clear_fact_memory\<close> and nothing else; otherwise \<open>--memorize\<close> runs the memorize branch,
  whose only operation is \<open>save_fact\<close>; otherwise \<open>--retrieve\<close> runs the retrieval branch,
  whose only operation is the read of the fact file; otherwise \<open>--cache\<close> with a prompt
  runs the recall branch, whose only operation is the load of the interaction file. The
  flags of lower rank have no effect on which branch runs.
\<close>

theorem one_memory_operation:
  "length (memory_ops s (main env a s)) \<le> 1
   \<and> (get_config env ''openai_api_key'' = Inr k \<and> \<not> add_instruction a \<longrightarrow>
        (clear_facts a \<longrightarrow>
           main env a s = clear_fact_memory s
         \<and> memory_ops s (main env a s) = [Call_clear_fact_memory])
      \<and> (\<not> clear_facts a \<and> memorize_fact a \<longrightarrow>
           main env a s = memorize_branch env a s
         \<and> memory_ops s (main env a s) =
             (case prompt a of None \<Rightarrow> []
              | Some x \<Rightarrow> [Call_save_fact (strftime (gmtime env) @ '' '' @ x)]))
      \<and> (\<not> clear_facts a \<and> \<not> memorize_fact a \<and> retrieve_fact a \<longrightarrow>
           main env a s = retrieve_branch env a k s
         \<and> (memory_ops s (main env a s) = [] \<or> memory_ops s (main env a s) = [Read_fact_memory]))
      \<and> (\<not> clear_facts a \<and> \<not> memorize_fact a \<and> \<not> retrieve_fact a \<and> cache a
           \<and> (truthy (prompt a) \<or> editor a) \<longrightarrow>
           main env a s = cache_branch env a s
         \<and> (memory_ops s (main env a s) = [] \<or> memory_ops s (main env a s) = [Load_inst_memory])))"
proof -
  have "length (memory_ops s (main env a s)) \<le> 1"
    by (rule main_at_most_one)
  moreover have "main env a s = clear_fact_memory s
      \<and> memory_ops s (main env a s) = [Call_clear_fact_memory]"
    if "get_config env ''openai_api_key'' = Inr k" "\<not> add_instruction a" "clear_facts a"
    using that by (simp add: main_def ops_clear_fact_memory)
  moreover have "main env a s = memorize_branch env a s
      \<and> memory_ops s (main env a s) =
             (case prompt a of None \<Rightarrow> []
              | Some x \<Rightarrow> [Call_save_fact (strftime (gmtime env) @ '' '' @ x)])"
    if "get_config env ''openai_api_key'' = Inr k" "\<not> add_instruction a"
      "\<not> clear_facts a" "memorize_fact a"
    using that by (simp add: main_def ops_memorize_branch)
  moreover have "main env a s = retrieve_branch env a k s
      \<and> (memory_ops s (main env a s) = [] \<or> memory_ops s (main env a s) = [Read_fact_memory])"
    if "get_config env ''openai_api_key'' = Inr k" "\<not> add_instruction a"
      "\<not> clear_facts a" "\<not> memorize_fact a" "retrieve_fact a"
    using that ops_retrieve_branch [of s env a k] by (simp add: main_def)
  moreover have "main env a s = cache_branch env a s
      \<and> (memory_ops s (main env a s) = [] \<or> memory_ops s (main env a s) = [Load_inst_memory])"
    if "get_config env ''openai_api_key'' = Inr k" "\<not> add_instruction a"
      "\<not> clear_facts a" "\<not> memorize_fact a" "\<not> retrieve_fact a" "cache a"
      "truthy (prompt a) \<or> editor a"
    using that ops_cache_branch [of s env a] by (auto simp add: main_def)
  ultimately show ?thesis by blast
qed

theorem one_memory_operation_witness:
  "memory_ops fresh_state (main example_env every_flag fresh_state) = [Call_clear_fact_memory]
   \<and> memory_ops two_records (main example_env (every_flag\<lparr>clear_facts := False\<rparr>) two_records)
       = [Call_save_fact (strftime (gmtime example_env) @ '' 0'')]
   \<and> main example_env (every_flag\<lparr>clear_facts := False, memorize_fact := False\<rparr>) two_records
       = retrieve_branch example_env
           (every_flag\<lparr>clear_facts := False, memorize_fact := False\<rparr>) ''secret'' two_records
   \<and> main example_env (recall_args ''0'') two_records
       = cache_branch example_env (recall_args ''0'') two_records"
proof -
  have k: "get_config example_env ''openai_api_key'' = Inr ''secret''"
    by (simp add: example_env_def)
  have "memory_ops fresh_state (main example_env every_flag fresh_state) = [Call_clear_fact_memory]"
    using one_memory_operation [of fresh_state example_env every_flag "''secret''"] k
    by (auto simp add: every_flag_def default_args_def)
  moreover have "memory_ops two_records
        (main example_env (every_flag\<lparr>clear_facts := False\<rparr>) two_records)
       = [Call_save_fact (strftime (gmtime example_env) @ '' 0'')]"
    using one_memory_operation [of two_records example_env "every_flag\<lparr>clear_facts := False\<rparr>"
      "''secret''"] k
    by (auto simp add: every_flag_def default_args_def)
  moreover have "main example_env (every_flag\<lparr>clear_facts := False, memorize_fact := False\<rparr>)
        two_records
       = retrieve_branch example_env
           (every_flag\<lparr>clear_facts := False, memorize_fact := False\<rparr>) ''secret'' two_records"
    using one_memory_operation [of two_records example_env
      "every_flag\<lparr>clear_facts := False, memorize_fact := False\<rparr>" "''secret''"] k
    by (auto simp add: every_flag_def default_args_def)
  moreover have "main example_env (recall_args ''0'') two_records
       = cache_branch example_env (recall_args ''0'') two_records"
    using one_memory_operation [of two_records example_env "recall_args ''0''" "''secret''"] k
    by (auto simp add: recall_args_def default_args_def truthy_def)
  ultimately show ?thesis by (simp only: simp_thms)
qed

end
